theory Spec2Isabelle
  imports Complex_Main
begin

section \<open>Device state machines (modules/device\_simulator.py)\<close>

text \<open>
  Python floats are modelled as \<^typ>\<open>real\<close> and Python ints as \<^typ>\<open>int\<close>. Every call of
  the module \<open>random\<close> made by one tick is an input of the tick: the draws of a tick are
  collected in a record, and a predicate says that each draw lies in the support of the
  call that produces it (\<open>random.uniform(a, b)\<close> in \<open>[a, b]\<close>, \<open>random.randint(a, b)\<close>
  in \<open>a..b\<close>, \<open>random.random()\<close> in \<open>[0, 1)\<close>).
\<close>

subsection \<open>InfusionPumpSimulator\<close>

record pump_state =
  flow_rate :: real
  pressure :: real
  battery_level :: real
  volume_infused :: real
  status :: string
  alarms :: "string list"

record pump_draws =
  flow_delta :: real
  pressure_delta :: real
  battery_drain :: real

definition pump_draws_ok :: "pump_draws \<Rightarrow> bool" where
  "pump_draws_ok d \<longleftrightarrow>
     - 0.2 \<le> flow_delta d \<and> flow_delta d \<le> 0.2 \<and>
     - 2 \<le> pressure_delta d \<and> pressure_delta d \<le> 2 \<and>
     0.01 \<le> battery_drain d \<and> battery_drain d \<le> 0.05"

text \<open>The state set up by \<open>InfusionPumpSimulator.__init__\<close>.\<close>

definition pump_init :: pump_state where
  "pump_init = \<lparr>flow_rate = 5.0, pressure = 25.0, battery_level = 100.0,
     volume_infused = 0.0, status = ''running'', alarms = []\<rparr>"

text \<open>
  \<open>_update_pump_state\<close>; the first argument is \<open>self.config.update_interval\<close>. The alarm
  list is rebuilt from the empty list, one \<open>append\<close> per test, in the order of the source.
\<close>

definition update_pump_state :: "real \<Rightarrow> pump_draws \<Rightarrow> pump_state \<Rightarrow> pump_state" where
  "update_pump_state update_interval d s =
    (let fr = flow_rate s + flow_delta d;
         fr = max 0 (min 10 fr);
         pr = pressure s + pressure_delta d;
         pr = max 10 (min 50 pr);
         bl = battery_level s - battery_drain d;
         bl = max 0 bl;
         vi = volume_infused s + fr * (update_interval / 3600);
         al = [];
         al = (if bl < 20 then al @ [''LOW_BATTERY''] else al);
         al = (if pr > 45 then al @ [''HIGH_PRESSURE''] else al);
         al = (if vi > 450 then al @ [''LOW_VOLUME''] else al)
     in s\<lparr>flow_rate := fr, pressure := pr, battery_level := bl,
          volume_infused := vi, alarms := al\<rparr>)"

text \<open>The states after each of a sequence of ticks, one per record of draws.\<close>

fun pump_ticks :: "real \<Rightarrow> pump_state \<Rightarrow> pump_draws list \<Rightarrow> pump_state list" where
  "pump_ticks ui s [] = []"
| "pump_ticks ui s (d # ds) =
     (let s' = update_pump_state ui d s in s' # pump_ticks ui s' ds)"

definition pump_in_range :: "pump_state \<Rightarrow> bool" where
  "pump_in_range s \<longleftrightarrow>
     0 \<le> flow_rate s \<and> flow_rate s \<le> 10 \<and>
     10 \<le> pressure s \<and> pressure s \<le> 50 \<and>
     0 \<le> battery_level s \<and> battery_level s \<le> 100"

subsection \<open>PatientBedSimulator\<close>

record bed_state =
  weight :: real
  position_angle :: real
  occupancy :: bool
  movement_level :: int
  bed_exit_risk :: string

record bed_draws =
  weight_delta :: real
  angle_delta :: real
  movement_draw :: int
  risk_draw :: real
  occupancy_draw :: real
  new_weight :: real

definition bed_draws_ok :: "bed_draws \<Rightarrow> bool" where
  "bed_draws_ok d \<longleftrightarrow>
     - 0.5 \<le> weight_delta d \<and> weight_delta d \<le> 0.5 \<and>
     - 5 \<le> angle_delta d \<and> angle_delta d \<le> 5 \<and>
     0 \<le> movement_draw d \<and> movement_draw d \<le> 5 \<and>
     0 \<le> risk_draw d \<and> risk_draw d < 1 \<and>
     0 \<le> occupancy_draw d \<and> occupancy_draw d < 1 \<and>
     60 \<le> new_weight d \<and> new_weight d \<le> 120"

definition bed_init :: bed_state where
  "bed_init = \<lparr>weight = 75.0, position_angle = 30.0, occupancy = True,
     movement_level = 2, bed_exit_risk = ''low''\<rparr>"

text \<open>
  \<open>_update_bed_state\<close>. In the occupied branch \<open>random.random()\<close> is called only when
  \<open>movement_level > 3\<close> (Python's \<open>and\<close>); in the other branch \<open>random.uniform(60, 120)\<close> is
  called only when the occupancy draw is below \<open>0.05\<close>. A draw that is not made is a field
  of the record that is not read.
\<close>

definition update_bed_state :: "bed_draws \<Rightarrow> bed_state \<Rightarrow> bed_state" where
  "update_bed_state d s =
    (if occupancy s then
       (let w = weight s + weight_delta d;
            w = max 50 (min 150 w);
            a = position_angle s + angle_delta d;
            a = max 0 (min 70 a);
            m = movement_draw d;
            r = (if m > 3 \<and> risk_draw d < 0.3 then ''high''
                 else if m > 1 then ''medium''
                 else ''low'')
        in s\<lparr>weight := w, position_angle := a, movement_level := m, bed_exit_risk := r\<rparr>)
     else
       (if occupancy_draw d < 0.05
        then s\<lparr>occupancy := True, weight := new_weight d\<rparr>
        else s))"

fun bed_ticks :: "bed_state \<Rightarrow> bed_draws list \<Rightarrow> bed_state list" where
  "bed_ticks s [] = []"
| "bed_ticks s (d # ds) = (let s' = update_bed_state d s in s' # bed_ticks s' ds)"

definition bed_in_range :: "bed_state \<Rightarrow> bool" where
  "bed_in_range s \<longleftrightarrow>
     50 \<le> weight s \<and> weight s \<le> 150 \<and>
     0 \<le> position_angle s \<and> position_angle s \<le> 70"

subsection \<open>VitalSignsSimulator\<close>

record vitals_state =
  heart_rate :: int
  blood_pressure_sys :: int
  blood_pressure_dia :: int
  oxygen_saturation :: real
  respiratory_rate :: int
  temperature :: real

record vitals_draws =
  hr_delta :: int
  sys_delta :: int
  dia_delta :: int
  spo2_delta :: real
  rr_delta :: int
  temp_delta :: real

definition vitals_draws_ok :: "vitals_draws \<Rightarrow> bool" where
  "vitals_draws_ok d \<longleftrightarrow>
     - 3 \<le> hr_delta d \<and> hr_delta d \<le> 3 \<and>
     - 5 \<le> sys_delta d \<and> sys_delta d \<le> 5 \<and>
     - 3 \<le> dia_delta d \<and> dia_delta d \<le> 3 \<and>
     - 1 \<le> spo2_delta d \<and> spo2_delta d \<le> 1 \<and>
     - 1 \<le> rr_delta d \<and> rr_delta d \<le> 1 \<and>
     - 0.2 \<le> temp_delta d \<and> temp_delta d \<le> 0.2"

definition vitals_init :: vitals_state where
  "vitals_init = \<lparr>heart_rate = 75, blood_pressure_sys = 120, blood_pressure_dia = 80,
     oxygen_saturation = 98, respiratory_rate = 16, temperature = 36.5\<rparr>"

definition update_vitals :: "vitals_draws \<Rightarrow> vitals_state \<Rightarrow> vitals_state" where
  "update_vitals d s =
    (let hr = heart_rate s + hr_delta d;
         hr = max 45 (min 150 hr);
         sy = blood_pressure_sys s + sys_delta d;
         sy = max 90 (min 180 sy);
         di = blood_pressure_dia s + dia_delta d;
         di = max 50 (min 110 di);
         ox = oxygen_saturation s + spo2_delta d;
         ox = max 85 (min 100 ox);
         rr = respiratory_rate s + rr_delta d;
         rr = max 8 (min 30 rr);
         te = temperature s + temp_delta d;
         te = max 35 (min 40 te)
     in \<lparr>heart_rate = hr, blood_pressure_sys = sy, blood_pressure_dia = di,
         oxygen_saturation = ox, respiratory_rate = rr, temperature = te\<rparr>)"

fun vitals_ticks :: "vitals_state \<Rightarrow> vitals_draws list \<Rightarrow> vitals_state list" where
  "vitals_ticks s [] = []"
| "vitals_ticks s (d # ds) = (let s' = update_vitals d s in s' # vitals_ticks s' ds)"

definition vitals_in_range :: "vitals_state \<Rightarrow> bool" where
  "vitals_in_range s \<longleftrightarrow>
     45 \<le> heart_rate s \<and> heart_rate s \<le> 150 \<and>
     90 \<le> blood_pressure_sys s \<and> blood_pressure_sys s \<le> 180 \<and>
     50 \<le> blood_pressure_dia s \<and> blood_pressure_dia s \<le> 110 \<and>
     85 \<le> oxygen_saturation s \<and> oxygen_saturation s \<le> 100 \<and>
     8 \<le> respiratory_rate s \<and> respiratory_rate s \<le> 30 \<and>
     35 \<le> temperature s \<and> temperature s \<le> 40"

section \<open>Telemetry records and the process environment\<close>

text \<open>
  A telemetry record is a Python \<open>dict\<close> with string keys, kept as an association list in
  insertion order; \<open>map_of\<close> reads it. Values are the Python values the simulators emit.
\<close>

datatype pyval =
    PNone
  | PBool bool
  | PInt int
  | PFloat real
  | PStr string
  | PList "pyval list"
  | PDict "(string \<times> pyval) list"

type_synonym telemetry = "(string \<times> pyval) list"

datatype py_exception =
    KeyError string
  | TypeError
  | AttributeError
  | NotImplementedError
  | RequestException string

text \<open>\<open>d[k]\<close>, \<open>d.get(k, default)\<close> and \<open>v[k]\<close> on an arbitrary value.\<close>

definition getitem :: "telemetry \<Rightarrow> string \<Rightarrow> py_exception + pyval" where
  "getitem d k = (case map_of d k of None \<Rightarrow> Inl (KeyError k) | Some v \<Rightarrow> Inr v)"

definition dict_get :: "telemetry \<Rightarrow> string \<Rightarrow> pyval \<Rightarrow> pyval" where
  "dict_get d k dflt = (case map_of d k of None \<Rightarrow> dflt | Some v \<Rightarrow> v)"

fun subscript :: "pyval \<Rightarrow> string \<Rightarrow> py_exception + pyval" where
  "subscript (PDict d) k = getitem d k"
| "subscript _ k = Inl TypeError"

text \<open>\<open>v.get(k, default)\<close>: only a \<open>dict\<close> has the method.\<close>

fun method_get :: "pyval \<Rightarrow> string \<Rightarrow> pyval \<Rightarrow> py_exception + pyval" where
  "method_get (PDict d) k dflt = Inr (dict_get d k dflt)"
| "method_get _ k dflt = Inl AttributeError"

text \<open>
  A path \<open>[k1, k2]\<close> stands for the expression \<open>data[k1][k2]\<close>. \<open>getitems\<close> evaluates a
  tuple of such expressions from left to right and stops at the first one that raises.
\<close>

fun getpath :: "pyval \<Rightarrow> string list \<Rightarrow> py_exception + pyval" where
  "getpath v [] = Inr v"
| "getpath v (k # ks) =
     (case subscript v k of Inl e \<Rightarrow> Inl e | Inr v' \<Rightarrow> getpath v' ks)"

fun getitems :: "telemetry \<Rightarrow> string list list \<Rightarrow> py_exception + pyval list" where
  "getitems d [] = Inr []"
| "getitems d (p # ps) =
     (case getpath (PDict d) p of
        Inl e \<Rightarrow> Inl e
      | Inr v \<Rightarrow> (case getitems d ps of Inl e \<Rightarrow> Inl e | Inr vs \<Rightarrow> Inr (v # vs)))"

text \<open>
  A value written out of the process: as it is, or as the text \<open>json.dumps(v)\<close>
  (the serialisation itself is not modelled).
\<close>

datatype cell = Plain pyval | Dumped pyval

text \<open>Lines written by \<open>print\<close>, one constructor per \<open>print\<close> call of the source, with the
  values its f-string interpolates.\<close>

datatype line =
    ErrorInCallback py_exception
  | Started string string
  | Stopped string string
  | SimpleLine pyval pyval pyval
  | DetailedLine pyval pyval pyval pyval
  | PumpLine pyval pyval
  | BedLine pyval pyval
  | VitalsLine pyval pyval pyval
  | JsonDump telemetry
  | SentRecords nat
  | ApiError int string
  | FailedToSend py_exception
  | ErrorWriting string py_exception

datatype file_line = JsonlRecord telemetry | CsvHeader "string list" | CsvRow "cell list"

datatype payload = SingleRecord telemetry | BatchRecords "telemetry list"

record request =
  url :: string
  auth :: "string option"
  body :: payload
  timeout :: int

record response =
  status_code :: int
  resp_text :: string

text \<open>
  What the methods act on outside their own object: standard output, the threads of the
  process (the number started so far and the handles of those still running), the files
  (keyed by directory, the device type in the file name and the suffix) and the requests
  posted to the remote API.
\<close>

type_synonym file_name = "string \<times> pyval \<times> string"

record world =
  stdout :: "line list"
  threads_started :: nat
  alive :: "nat list"
  files :: "(file_name \<times> file_line list) list"
  requests :: "request list"

text \<open>The world of a process that has printed, started, written and posted nothing yet.\<close>

definition fresh_world :: world where
  "fresh_world = \<lparr>stdout = [], threads_started = 0, alive = [], files = [], requests = []\<rparr>"

definition print :: "line \<Rightarrow> world \<Rightarrow> world" where
  "print l w = w\<lparr>stdout := stdout w @ [l]\<rparr>"

section \<open>BaseDeviceSimulator (modules/device\_simulator.py)\<close>

text \<open>
  A callback acts on the state of the subscribers (type \<open>'c\<close>) and on the world, and
  either returns or raises.
\<close>

type_synonym 'c callback = "telemetry \<Rightarrow> 'c \<times> world \<Rightarrow> ('c \<times> world) \<times> py_exception option"

record 'c simulator =
  device_id :: string
  device_type :: string
  config_enabled :: bool
  running :: bool
  thread :: "nat option"
  data_history :: "telemetry list"
  callbacks :: "'c callback list"

definition simulator_init :: "string \<Rightarrow> string \<Rightarrow> bool \<Rightarrow> 'c simulator" where
  "simulator_init did dtype en =
     \<lparr>device_id = did, device_type = dtype, config_enabled = en, running = False,
      thread = None, data_history = [], callbacks = []\<rparr>"

definition add_callback :: "'c callback \<Rightarrow> 'c simulator \<Rightarrow> 'c simulator" where
  "add_callback cb self = self\<lparr>callbacks := callbacks self @ [cb]\<rparr>"

text \<open>The loop over \<open>self.callbacks\<close> in \<open>send_data\<close>, with its \<open>try\<close>/\<open>except\<close>.\<close>

fun run_callbacks :: "'c callback list \<Rightarrow> telemetry \<Rightarrow> 'c \<times> world \<Rightarrow> 'c \<times> world" where
  "run_callbacks [] data st = st"
| "run_callbacks (cb # cbs) data st =
     (case cb data st of
        (st', None) \<Rightarrow> run_callbacks cbs data st'
      | ((c, w), Some e) \<Rightarrow> run_callbacks cbs data (c, print (ErrorInCallback e) w))"

text \<open>\<open>send_data\<close>: \<open>append\<close>, then \<open>pop(0)\<close> when more than 100 records are held.\<close>

definition send_data ::
  "telemetry \<Rightarrow> 'c simulator \<times> 'c \<times> world \<Rightarrow> 'c simulator \<times> 'c \<times> world" where
  "send_data data = (\<lambda>(self, st).
     (let h = data_history self @ [data];
          h = (if length h > 100 then tl h else h)
      in (self\<lparr>data_history := h\<rparr>, run_callbacks (callbacks self) data st)))"

text \<open>A sequence of records delivered through \<open>send_data\<close>, one call each.\<close>

fun send_all ::
  "telemetry list \<Rightarrow> 'c simulator \<times> 'c \<times> world \<Rightarrow> 'c simulator \<times> 'c \<times> world" where
  "send_all [] s = s"
| "send_all (data # rest) s = send_all rest (send_data data s)"

text \<open>
  \<open>start\<close>: the thread created is given the next handle and runs from then on.
  \<open>stop\<close>: \<open>join\<close> returns once the thread has left \<open>_run\<close>, which it does since \<open>running\<close>
  is false; after it the thread is no longer alive. Both are called from a thread other
  than the simulator's own.
\<close>

definition start :: "'c simulator \<times> world \<Rightarrow> 'c simulator \<times> world" where
  "start = (\<lambda>(self, w).
     if running self then (self, w)
     else
       (let t = threads_started w;
            self = self\<lparr>running := True, thread := Some t\<rparr>;
            w = w\<lparr>threads_started := Suc t, alive := alive w @ [t]\<rparr>
        in (self, print (Started (device_type self) (device_id self)) w)))"

definition join :: "nat \<Rightarrow> world \<Rightarrow> world" where
  "join t w = w\<lparr>alive := removeAll t (alive w)\<rparr>"

definition stop :: "'c simulator \<times> world \<Rightarrow> 'c simulator \<times> world" where
  "stop = (\<lambda>(self, w).
     (let self = self\<lparr>running := False\<rparr>;
          w = (case thread self of None \<Rightarrow> w | Some t \<Rightarrow> join t w)
      in (self, print (Stopped (device_type self) (device_id self)) w)))"

section \<open>Data sinks (modules/data\_sink.py)\<close>

text \<open>
  Each \<open>write\<close> returns the exception it raises, if any, next to what it has changed up
  to that point.
\<close>

subsection \<open>ConsoleDataSink\<close>

definition console_write ::
  "bool \<Rightarrow> string \<Rightarrow> telemetry \<Rightarrow> world \<Rightarrow> world \<times> py_exception option" where
  "console_write enabled format_type data w =
    (if \<not> enabled then (w, None)
     else if format_type = ''simple'' then
       (case getitem data ''device_type'' of Inl e \<Rightarrow> (w, Some e) | Inr dt \<Rightarrow>
        case getitem data ''device_id'' of Inl e \<Rightarrow> (w, Some e) | Inr did \<Rightarrow>
        case getitem data ''timestamp'' of Inl e \<Rightarrow> (w, Some e) | Inr ts \<Rightarrow>
          (print (SimpleLine dt did ts) w, None))
     else if format_type = ''detailed'' then
       (case getitem data ''timestamp'' of Inl e \<Rightarrow> (w, Some e) | Inr ts \<Rightarrow>
        case getitem data ''device_type'' of Inl e \<Rightarrow> (w, Some e) | Inr dt \<Rightarrow>
        case getitem data ''device_id'' of Inl e \<Rightarrow> (w, Some e) | Inr did \<Rightarrow>
        case getitem data ''location'' of Inl e \<Rightarrow> (w, Some e) | Inr loc \<Rightarrow>
          (let w = print (DetailedLine ts dt did loc) w in
           if dt = PStr ''infusion_pump'' then
             (print (PumpLine (dict_get data ''flow_rate'' (PStr ''N/A''))
                              (dict_get data ''pressure'' (PStr ''N/A''))) w, None)
           else if dt = PStr ''patient_bed'' then
             (print (BedLine (dict_get data ''weight'' (PStr ''N/A''))
                             (dict_get data ''position_angle'' (PStr ''N/A''))) w, None)
           else if dt = PStr ''vital_signs'' then
             (let hr = dict_get data ''heart_rate'' (PStr ''N/A'') in
              case method_get (dict_get data ''blood_pressure'' (PDict [])) ''systolic''
                     (PStr ''N/A'') of Inl e \<Rightarrow> (w, Some e) | Inr sy \<Rightarrow>
              case method_get (dict_get data ''blood_pressure'' (PDict [])) ''diastolic''
                     (PStr ''N/A'') of Inl e \<Rightarrow> (w, Some e) | Inr di \<Rightarrow>
                (print (VitalsLine hr sy di) w, None))
           else (w, None)))
     else if format_type = ''json'' then (print (JsonDump data) w, None)
     else (w, None))"

subsection \<open>FileDataSink\<close>

text \<open>\<open>d[k] = v\<close> on an association list, and \<open>dict(items)\<close>: a later pair with a key
  already present replaces the value and keeps the key's place.\<close>

fun dict_setitem :: "'k \<Rightarrow> 'v \<Rightarrow> ('k \<times> 'v) list \<Rightarrow> ('k \<times> 'v) list" where
  "dict_setitem k v [] = [(k, v)]"
| "dict_setitem k v ((k', v') # rest) =
     (if k' = k then (k, v) # rest else (k', v') # dict_setitem k v rest)"

definition dict_of_items :: "('k \<times> 'v) list \<Rightarrow> ('k \<times> 'v) list" where
  "dict_of_items items = foldl (\<lambda>d (k, v). dict_setitem k v d) [] items"

fun flatten_dict :: "telemetry \<Rightarrow> string \<Rightarrow> string \<Rightarrow> (string \<times> cell) list" where
  "flatten_dict d parent_key sep =
     dict_of_items (concat (map (\<lambda>(k, v).
       (let new_key = (if parent_key \<noteq> [] then parent_key @ sep @ k else k) in
        case v of
          PDict d' \<Rightarrow> flatten_dict d' new_key sep
        | PList l \<Rightarrow> [(new_key, Dumped v)]
        | _ \<Rightarrow> [(new_key, Plain v)])) d))"

text \<open>Opening a file in mode \<open>'a'\<close> and writing to it: the file is created when absent.\<close>

definition append_file :: "file_name \<Rightarrow> file_line list \<Rightarrow> world \<Rightarrow> world" where
  "append_file fn ls w =
     w\<lparr>files := (case map_of (files w) fn of
                   None \<Rightarrow> files w @ [(fn, ls)]
                 | Some old \<Rightarrow> dict_setitem fn (old @ ls) (files w))\<rparr>"

definition write_json :: "string \<Rightarrow> telemetry \<Rightarrow> pyval \<Rightarrow> world \<Rightarrow> world" where
  "write_json output_dir data dt w =
     append_file (output_dir, dt, ''_data.jsonl'') [JsonlRecord data] w"

definition write_csv :: "string \<Rightarrow> telemetry \<Rightarrow> pyval \<Rightarrow> world \<Rightarrow> world" where
  "write_csv output_dir data dt w =
     (let filename = (output_dir, dt, ''_data.csv'');
          flat_data = flatten_dict data [] ''_'';
          file_exists = (map_of (files w) filename \<noteq> None)
      in append_file filename
           ((if \<not> file_exists then [CsvHeader (map fst flat_data)] else [])
            @ [CsvRow (map snd flat_data)]) w)"

definition file_write ::
  "bool \<Rightarrow> string \<Rightarrow> string \<Rightarrow> telemetry \<Rightarrow> world \<Rightarrow> world \<times> py_exception option" where
  "file_write enabled output_dir fmt data w =
    (if \<not> enabled then (w, None)
     else
       (case getitem data ''device_type'' of Inl e \<Rightarrow> (w, Some e) | Inr dt \<Rightarrow>
          if fmt = ''json'' then (write_json output_dir data dt w, None)
          else if fmt = ''csv'' then (write_csv output_dir data dt w, None)
          else (w, None)))"

subsection \<open>DatabaseDataSink\<close>

text \<open>
  The connection: rows inserted since the last commit, and the committed rows. Each row
  names its table. The values bound to an \<open>INSERT\<close> are taken to be of types that
  \<open>sqlite3\<close> accepts.
\<close>

type_synonym db_row = "string \<times> cell list"

record db_conn =
  pending :: "db_row list"
  committed :: "db_row list"

definition execute_insert :: "db_row \<Rightarrow> db_conn \<Rightarrow> db_conn" where
  "execute_insert row c = c\<lparr>pending := pending c @ [row]\<rparr>"

definition commit :: "db_conn \<Rightarrow> db_conn" where
  "commit c = \<lparr>pending = [], committed = committed c @ pending c\<rparr>"

definition database_write ::
  "bool \<Rightarrow> db_conn \<Rightarrow> telemetry \<Rightarrow> db_conn \<times> py_exception option" where
  "database_write enabled conn data =
    (if \<not> enabled then (conn, None)
     else
       (case getitems data [[''device_id''], [''device_type''], [''location''],
                            [''timestamp''], [''session_id'']] of
          Inl e \<Rightarrow> (conn, Some e)
        | Inr vs \<Rightarrow>
         (let conn = execute_insert (''device_data'', map Plain vs @ [Dumped (PDict data)]) conn in
          case getitem data ''device_type'' of Inl e \<Rightarrow> (conn, Some e) | Inr dt \<Rightarrow>
            if dt = PStr ''infusion_pump'' then
              (case getitems data [[''device_id''], [''timestamp''], [''flow_rate''],
                      [''target_flow_rate''], [''pressure''], [''battery_level''],
                      [''volume_infused''], [''volume_remaining''], [''status'']] of
                 Inl e \<Rightarrow> (conn, Some e)
               | Inr vs \<Rightarrow>
                  (case getitem data ''alarms'' of Inl e \<Rightarrow> (conn, Some e) | Inr al \<Rightarrow>
                    (commit (execute_insert
                       (''infusion_pump_data'', map Plain vs @ [Dumped al]) conn), None)))
            else if dt = PStr ''patient_bed'' then
              (case getitems data [[''device_id''], [''timestamp''], [''weight''],
                      [''position_angle''], [''occupancy''], [''movement_level''],
                      [''bed_exit_risk'']] of
                 Inl e \<Rightarrow> (conn, Some e)
               | Inr vs \<Rightarrow>
                  (commit (execute_insert (''patient_bed_data'', map Plain vs) conn), None))
            else if dt = PStr ''vital_signs'' then
              (case getitems data [[''device_id''], [''timestamp''], [''heart_rate''],
                      [''blood_pressure'', ''systolic''], [''blood_pressure'', ''diastolic''],
                      [''oxygen_saturation''], [''respiratory_rate''], [''temperature'']] of
                 Inl e \<Rightarrow> (conn, Some e)
               | Inr vs \<Rightarrow>
                  (commit (execute_insert (''vital_signs_data'', map Plain vs) conn), None))
            else (commit conn, None))))"

subsection \<open>APIDataSink\<close>

record api_config =
  api_url :: string
  auth_token :: "string option"
  batch_size :: int

text \<open>
  \<open>__init__\<close> sets the \<open>Authorization\<close> header of the session under \<open>if auth_token:\<close>, that
  is for a token that is neither \<open>None\<close> nor the empty string; every request of the session
  then carries it.
\<close>

definition session_auth :: "api_config \<Rightarrow> string option" where
  "session_auth cfg =
     (case auth_token cfg of
        None \<Rightarrow> None
      | Some t \<Rightarrow> if t \<noteq> [] then Some t else None)"

text \<open>\<open>write\<close>: \<open>self.batch_queue.put(data)\<close>; the queue is unbounded and first in, first out.\<close>

definition api_write :: "bool \<Rightarrow> telemetry list \<Rightarrow> telemetry \<Rightarrow> telemetry list" where
  "api_write enabled batch_queue data =
     (if \<not> enabled then batch_queue else batch_queue @ [data])"

text \<open>
  The remote end: what the \<open>n\<close>-th request of the process is answered with, a response
  or an exception of \<open>requests\<close>.
\<close>

type_synonym remote = "nat \<Rightarrow> request \<Rightarrow> py_exception + response"

definition send_batch :: "api_config \<Rightarrow> remote \<Rightarrow> telemetry list \<Rightarrow> world \<Rightarrow> world" where
  "send_batch cfg remote batch w =
    (let req =
          (if length batch = 1
           then \<lparr>url = api_url cfg @ ''/devices/data'', auth = session_auth cfg,
                 body = SingleRecord (batch ! 0), timeout = 5\<rparr>
           else \<lparr>url = api_url cfg @ ''/devices/data/batch'', auth = session_auth cfg,
                 body = BatchRecords batch, timeout = 10\<rparr>);
         answer = remote (length (requests w)) req;
         w = w\<lparr>requests := requests w @ [req]\<rparr>
     in case answer of
          Inl e \<Rightarrow> print (FailedToSend e) w
        | Inr resp \<Rightarrow>
            if status_code resp \<in> set [200, 201]
            then print (SentRecords (length batch)) w
            else print (ApiError (status_code resp) (resp_text resp)) w)"

text \<open>The records a request carries, in the order of its payload.\<close>

fun payload_records :: "payload \<Rightarrow> telemetry list" where
  "payload_records (SingleRecord r) = [r]"
| "payload_records (BatchRecords rs) = rs"

text \<open>
  \<open>_process_batches\<close>. The loop never ends; what it does is fixed by the outcomes of its
  successive calls \<open>self.batch_queue.get(timeout=1)\<close>, each a record or \<open>queue.Empty\<close>.
  The function runs one iteration per outcome given and returns the batch held then.
\<close>

datatype get_result = Got telemetry | Empty

fun process_batches ::
  "api_config \<Rightarrow> remote \<Rightarrow> get_result list \<Rightarrow> telemetry list \<Rightarrow> world
     \<Rightarrow> telemetry list \<times> world" where
  "process_batches cfg remote [] batch w = (batch, w)"
| "process_batches cfg remote (Got data # rest) batch w =
     (let batch = batch @ [data] in
      if int (length batch) \<ge> batch_size cfg
      then process_batches cfg remote rest [] (send_batch cfg remote batch w)
      else process_batches cfg remote rest batch w)"
| "process_batches cfg remote (Empty # rest) batch w =
     (if batch \<noteq> []
      then process_batches cfg remote rest [] (send_batch cfg remote batch w)
      else process_batches cfg remote rest batch w)"

subsection \<open>The sink classes and DataSinkManager\<close>

text \<open>
  The base class \<open>DataSink\<close>, whose \<open>write\<close> raises \<open>NotImplementedError\<close>, and its four
  subclasses, each with the attributes \<open>write\<close> reads or changes.
\<close>

datatype sink =
    DataSink string bool
  | ConsoleDataSink bool string
  | FileDataSink bool string string
  | DatabaseDataSink bool db_conn
  | APIDataSink bool api_config "telemetry list"

fun sink_name :: "sink \<Rightarrow> string" where
  "sink_name (DataSink n en) = n"
| "sink_name (ConsoleDataSink en fmt) = ''console''"
| "sink_name (FileDataSink en dir fmt) = ''file''"
| "sink_name (DatabaseDataSink en conn) = ''database''"
| "sink_name (APIDataSink en cfg q) = ''api''"

fun sink_enabled :: "sink \<Rightarrow> bool" where
  "sink_enabled (DataSink n en) = en"
| "sink_enabled (ConsoleDataSink en fmt) = en"
| "sink_enabled (FileDataSink en dir fmt) = en"
| "sink_enabled (DatabaseDataSink en conn) = en"
| "sink_enabled (APIDataSink en cfg q) = en"

fun sink_write :: "sink \<Rightarrow> telemetry \<Rightarrow> world \<Rightarrow> sink \<times> world \<times> py_exception option" where
  "sink_write (DataSink n en) data w = (DataSink n en, w, Some NotImplementedError)"
| "sink_write (ConsoleDataSink en fmt) data w =
     (case console_write en fmt data w of (w', r) \<Rightarrow> (ConsoleDataSink en fmt, w', r))"
| "sink_write (FileDataSink en dir fmt) data w =
     (case file_write en dir fmt data w of (w', r) \<Rightarrow> (FileDataSink en dir fmt, w', r))"
| "sink_write (DatabaseDataSink en conn) data w =
     (case database_write en conn data of (conn', r) \<Rightarrow> (DatabaseDataSink en conn', w, r))"
| "sink_write (APIDataSink en cfg q) data w =
     (APIDataSink en cfg (api_write en q data), w, None)"

text \<open>
  \<open>write_to_all\<close>. The third component lists the calls \<open>sink.write(data)\<close> made, in the
  order in which they are made, each as the sink's name and the record passed.
\<close>

fun write_to_all ::
  "sink list \<Rightarrow> telemetry \<Rightarrow> world \<Rightarrow> sink list \<times> world \<times> (string \<times> telemetry) list" where
  "write_to_all [] data w = ([], w, [])"
| "write_to_all (s # rest) data w =
     (if sink_enabled s then
        (case sink_write s data w of (s', w', r) \<Rightarrow>
           (let w' = (case r of None \<Rightarrow> w'
                      | Some e \<Rightarrow> print (ErrorWriting (sink_name s) e) w')
            in case write_to_all rest data w' of (rest', w'', calls) \<Rightarrow>
                 (s' # rest', w'', (sink_name s, data) # calls)))
      else
        (case write_to_all rest data w of (rest', w'', calls) \<Rightarrow> (s # rest', w'', calls)))"

text \<open>A sequence of records passed to \<open>write_to_all\<close>, one call each.\<close>

fun write_all_records ::
  "telemetry list \<Rightarrow> sink list \<Rightarrow> world \<Rightarrow> sink list \<times> world \<times> (string \<times> telemetry) list" where
  "write_all_records [] sinks w = (sinks, w, [])"
| "write_all_records (data # rest) sinks w =
     (case write_to_all sinks data w of (sinks', w', calls) \<Rightarrow>
        (case write_all_records rest sinks' w' of (sinks'', w'', calls') \<Rightarrow>
           (sinks'', w'', calls @ calls')))"

subsection \<open>Sample inputs\<close>

text \<open>
  The record \<open>sample_data\<close> of the module's example (its time stamp fixed), and the same
  record without the key \<open>flow_rate\<close>.
\<close>

definition sample_data :: telemetry where
  "sample_data =
     [(''device_id'', PStr ''pump_001''), (''device_type'', PStr ''infusion_pump''),
      (''location'', PStr ''Room_101''), (''timestamp'', PStr ''2024-01-01T00:00:00''),
      (''session_id'', PStr ''abc123''), (''flow_rate'', PFloat 5.2),
      (''target_flow_rate'', PFloat 5.0), (''pressure'', PFloat 25.8),
      (''battery_level'', PFloat 85.5), (''volume_infused'', PFloat 125.0),
      (''volume_remaining'', PFloat 375.0), (''status'', PStr ''running''),
      (''alarms'', PList [PStr ''LOW_BATTERY''])]"

definition sample_data_no_flow_rate :: telemetry where
  "sample_data_no_flow_rate =
     [(''device_id'', PStr ''pump_001''), (''device_type'', PStr ''infusion_pump''),
      (''location'', PStr ''Room_101''), (''timestamp'', PStr ''2024-01-01T00:00:00''),
      (''session_id'', PStr ''abc123''),
      (''target_flow_rate'', PFloat 5.0), (''pressure'', PFloat 25.8),
      (''battery_level'', PFloat 85.5), (''volume_infused'', PFloat 125.0),
      (''volume_remaining'', PFloat 375.0), (''status'', PStr ''running''),
      (''alarms'', PList [PStr ''LOW_BATTERY''])]"

text \<open>The API sink of the default configuration, and a remote end that answers the first
  request with status 500 and fails to answer any later one.\<close>

definition sample_api :: api_config where
  "sample_api = \<lparr>api_url = ''http://localhost:8080/api'', auth_token = None, batch_size = 3\<rparr>"

definition failing_remote :: remote where
  "failing_remote n req =
     (if n = 0 then Inr \<lparr>status_code = 500, resp_text = ''unavailable''\<rparr>
      else Inl (RequestException ''timed out''))"

section \<open>Range invariants of the state machines\<close>

lemma pump_step_in_range:
  "pump_in_range s \<Longrightarrow> pump_draws_ok d \<Longrightarrow> pump_in_range (update_pump_state ui d s)"
  by (simp add: pump_in_range_def pump_draws_ok_def update_pump_state_def Let_def)

lemma bed_step_in_range:
  "bed_in_range s \<Longrightarrow> bed_draws_ok d \<Longrightarrow> bed_in_range (update_bed_state d s)"
  by (simp add: bed_in_range_def bed_draws_ok_def update_bed_state_def Let_def)

lemma vitals_step_in_range: "vitals_in_range (update_vitals d s)"
  by (simp add: vitals_in_range_def update_vitals_def Let_def)

lemma pump_ticks_in_range:
  "pump_in_range s \<Longrightarrow> list_all pump_draws_ok ds \<Longrightarrow>
   list_all pump_in_range (pump_ticks ui s ds)"
  by (induction ds arbitrary: s) (simp_all add: Let_def pump_step_in_range)

lemma bed_ticks_in_range:
  "bed_in_range s \<Longrightarrow> list_all bed_draws_ok ds \<Longrightarrow>
   list_all bed_in_range (bed_ticks s ds)"
  by (induction ds arbitrary: s) (simp_all add: Let_def bed_step_in_range)

lemma vitals_ticks_in_range: "list_all vitals_in_range (vitals_ticks s ds)"
  by (induction ds arbitrary: s) (simp_all add: Let_def vitals_step_in_range)

lemma init_states_in_range:
  "pump_in_range pump_init" "bed_in_range bed_init" "vitals_in_range vitals_init"
  by (simp_all add: pump_in_range_def pump_init_def bed_in_range_def bed_init_def
      vitals_in_range_def vitals_init_def)


section \<open>Battery, bed occupancy and the history buffer\<close>

lemma pump_step_battery:
  "0 \<le> battery_level s \<Longrightarrow> pump_draws_ok d \<Longrightarrow>
   0 \<le> battery_level (update_pump_state ui d s) \<and>
   battery_level (update_pump_state ui d s) \<le> battery_level s"
  by (simp add: pump_draws_ok_def update_pump_state_def Let_def)

lemma pump_ticks_battery_below:
  "0 \<le> battery_level s \<Longrightarrow> list_all pump_draws_ok ds \<Longrightarrow>
   \<forall>s' \<in> set (pump_ticks ui s ds). battery_level s' \<le> battery_level s"
proof (induction ds arbitrary: s)
  case Nil
  then show ?case by simp
next
  case (Cons d ds)
  let ?s1 = "update_pump_state ui d s"
  from Cons.prems have step: "0 \<le> battery_level ?s1" "battery_level ?s1 \<le> battery_level s"
    using pump_step_battery [of s d ui] by simp_all
  from Cons.prems have "list_all pump_draws_ok ds" by simp
  from Cons.IH [OF step(1) this]
  have "\<forall>s' \<in> set (pump_ticks ui ?s1 ds). battery_level s' \<le> battery_level ?s1" .
  with step(2) show ?case by (auto simp: Let_def)
qed

lemma pump_ticks_battery_sorted:
  "0 \<le> battery_level s \<Longrightarrow> list_all pump_draws_ok ds \<Longrightarrow>
   sorted_wrt (\<lambda>a b. b \<le> a) (map battery_level (pump_ticks ui s ds))"
proof (induction ds arbitrary: s)
  case Nil
  then show ?case by simp
next
  case (Cons d ds)
  let ?s1 = "update_pump_state ui d s"
  from Cons.prems have step: "0 \<le> battery_level ?s1"
    using pump_step_battery [of s d ui] by simp
  from Cons.prems have ok: "list_all pump_draws_ok ds" by simp
  have "sorted_wrt (\<lambda>a b. b \<le> a) (map battery_level (pump_ticks ui ?s1 ds))"
    by (rule Cons.IH [OF step ok])
  moreover have "\<forall>s' \<in> set (pump_ticks ui ?s1 ds). battery_level s' \<le> battery_level ?s1"
    by (rule pump_ticks_battery_below [OF step ok])
  ultimately show ?case by (simp add: Let_def)
qed

lemma pump_ticks_battery_floor:
  "0 \<le> battery_level s \<Longrightarrow> list_all pump_draws_ok ds \<Longrightarrow>
   list_all (\<lambda>s'. 0 \<le> battery_level s') (pump_ticks ui s ds)"
proof (induction ds arbitrary: s)
  case Nil
  then show ?case by simp
next
  case (Cons d ds)
  from Cons.prems have step: "0 \<le> battery_level (update_pump_state ui d s)"
    using pump_step_battery [of s d ui] by simp
  from Cons.prems have "list_all pump_draws_ok ds" by simp
  from Cons.IH [OF step this] step show ?case by (simp add: Let_def)
qed

text \<open>
  Claim C7. For the infusion pump, from a battery level in \<open>[0, 100]\<close> and for any
  sequence of draws, the battery levels before the first tick and after each tick form a
  non-increasing sequence: the level after a tick is at most the level before it. No
  level is below the floor 0.
\<close>

theorem battery_non_increasing:
  assumes "0 \<le> battery_level s" and "battery_level s \<le> 100"
    and "list_all pump_draws_ok ds"
  shows "sorted_wrt (\<lambda>a b. b \<le> a) (map battery_level (s # pump_ticks ui s ds)) \<and>
         list_all (\<lambda>s'. 0 \<le> battery_level s') (s # pump_ticks ui s ds)"
  using assms pump_ticks_battery_below [of s ds ui] pump_ticks_battery_sorted [of s ds ui]
    pump_ticks_battery_floor [of s ds ui]
  by simp

text \<open>
  Claim C1. For each of the three state machines, from a state whose clamped fields lie in
  their declared ranges and for any sequence of draws, each within the support of the call
  of \<open>random\<close> that makes it, every state reached, tick after tick, has its clamped
  fields in range: pump \<open>flow_rate\<close> in \<open>[0, 10]\<close>, \<open>pressure\<close> in \<open>[10, 50]\<close>,
  \<open>battery_level\<close> in \<open>[0, 100]\<close>; bed \<open>weight\<close> in \<open>[50, 150]\<close>, \<open>position_angle\<close> in
  \<open>[0, 70]\<close>; vitals \<open>heart_rate\<close> in \<open>[45, 150]\<close>, systolic in \<open>[90, 180]\<close>, diastolic in
  \<open>[50, 110]\<close>, \<open>oxygen_saturation\<close> in \<open>[85, 100]\<close>, \<open>respiratory_rate\<close> in \<open>[8, 30]\<close>,
  \<open>temperature\<close> in \<open>[35, 40]\<close>.
\<close>

theorem clamped_fields_stay_in_range:
  "(pump_in_range p \<and> list_all pump_draws_ok pd
      \<longrightarrow> list_all pump_in_range (pump_ticks ui p pd)) \<and>
   (bed_in_range b \<and> list_all bed_draws_ok bd
      \<longrightarrow> list_all bed_in_range (bed_ticks b bd)) \<and>
   (vitals_in_range v \<and> list_all vitals_draws_ok vd
      \<longrightarrow> list_all vitals_in_range (vitals_ticks v vd))"
  by (simp add: pump_ticks_in_range bed_ticks_in_range vitals_ticks_in_range)

lemma bed_ticks_idle:
  "\<not> occupancy s \<Longrightarrow> \<forall>d \<in> set ds. \<not> occupancy_draw d < 0.05 \<Longrightarrow>
   bed_ticks s ds = replicate (length ds) s"
  by (induction ds) (simp_all add: update_bed_state_def Let_def)

text \<open>
  Claim C8. For the patient bed with \<open>occupancy\<close> false: a tick whose occupancy draw is
  not below \<open>0.05\<close> leaves the whole state, the weight included, as it was, and so does
  any run of such ticks; a tick whose draw is below \<open>0.05\<close> sets \<open>occupancy\<close> to true and
  the weight to the value drawn by \<open>random.uniform(60, 120)\<close>, which lies in \<open>[60, 120]\<close>,
  and changes nothing else.
\<close>

theorem unoccupied_bed_frame:
  assumes "\<not> occupancy s"
  shows "(\<not> occupancy_draw d < 0.05 \<longrightarrow> update_bed_state d s = s) \<and>
         (occupancy_draw d < 0.05 \<longrightarrow>
            update_bed_state d s = s\<lparr>occupancy := True, weight := new_weight d\<rparr> \<and>
            (bed_draws_ok d \<longrightarrow> 60 \<le> weight (update_bed_state d s) \<and>
                                 weight (update_bed_state d s) \<le> 120)) \<and>
         ((\<forall>d' \<in> set ds. \<not> occupancy_draw d' < 0.05) \<longrightarrow>
            bed_ticks s ds = replicate (length ds) s)"
  using assms bed_ticks_idle [of s ds]
  by (simp add: update_bed_state_def bed_draws_ok_def)

theorem clamped_fields_stay_in_range_witness:
  "(pump_in_range pump_init \<and>
    list_all pump_draws_ok
      [\<lparr>flow_delta = 0.2, pressure_delta = - 2, battery_drain = 0.05\<rparr>,
       \<lparr>flow_delta = - 0.2, pressure_delta = 2, battery_drain = 0.01\<rparr>] \<and>
    list_all pump_in_range (pump_ticks 1 pump_init
      [\<lparr>flow_delta = 0.2, pressure_delta = - 2, battery_drain = 0.05\<rparr>,
       \<lparr>flow_delta = - 0.2, pressure_delta = 2, battery_drain = 0.01\<rparr>])) \<and>
   (bed_in_range (bed_init\<lparr>occupancy := False\<rparr>) \<and>
    list_all bed_draws_ok
      [\<lparr>weight_delta = 0.5, angle_delta = 5, movement_draw = 4, risk_draw = 0.1,
        occupancy_draw = 0.01, new_weight = 120\<rparr>,
       \<lparr>weight_delta = 0.5, angle_delta = 5, movement_draw = 4, risk_draw = 0.1,
        occupancy_draw = 0.5, new_weight = 60\<rparr>] \<and>
    list_all bed_in_range (bed_ticks (bed_init\<lparr>occupancy := False\<rparr>)
      [\<lparr>weight_delta = 0.5, angle_delta = 5, movement_draw = 4, risk_draw = 0.1,
        occupancy_draw = 0.01, new_weight = 120\<rparr>,
       \<lparr>weight_delta = 0.5, angle_delta = 5, movement_draw = 4, risk_draw = 0.1,
        occupancy_draw = 0.5, new_weight = 60\<rparr>])) \<and>
   (vitals_in_range vitals_init \<and>
    list_all vitals_draws_ok
      [\<lparr>hr_delta = 3, sys_delta = - 5, dia_delta = 3, spo2_delta = 1, rr_delta = - 1,
        temp_delta = 0.2\<rparr>] \<and>
    list_all vitals_in_range (vitals_ticks vitals_init
      [\<lparr>hr_delta = 3, sys_delta = - 5, dia_delta = 3, spo2_delta = 1, rr_delta = - 1,
        temp_delta = 0.2\<rparr>]))"
proof -
  let ?pd = "[\<lparr>flow_delta = 0.2, pressure_delta = - 2, battery_drain = 0.05\<rparr>,
       \<lparr>flow_delta = - 0.2, pressure_delta = 2, battery_drain = 0.01\<rparr>]"
  let ?b = "bed_init\<lparr>occupancy := False\<rparr>"
  let ?bd = "[\<lparr>weight_delta = 0.5, angle_delta = 5, movement_draw = 4, risk_draw = 0.1,
        occupancy_draw = 0.01, new_weight = 120\<rparr>,
       \<lparr>weight_delta = 0.5, angle_delta = 5, movement_draw = 4, risk_draw = 0.1,
        occupancy_draw = 0.5, new_weight = 60\<rparr>]"
  let ?vd = "[\<lparr>hr_delta = 3, sys_delta = - 5, dia_delta = 3, spo2_delta = 1, rr_delta = - 1,
        temp_delta = 0.2\<rparr>]"
  have p: "pump_in_range pump_init" "list_all pump_draws_ok ?pd"
    by (simp_all add: pump_in_range_def pump_init_def pump_draws_ok_def)
  have b: "bed_in_range ?b" "list_all bed_draws_ok ?bd"
    by (simp_all add: bed_in_range_def bed_init_def bed_draws_ok_def)
  have v: "vitals_in_range vitals_init" "list_all vitals_draws_ok ?vd"
    by (simp_all add: vitals_in_range_def vitals_init_def vitals_draws_ok_def)
  from p b v show ?thesis
    using clamped_fields_stay_in_range [of pump_init ?pd 1 ?b ?bd vitals_init ?vd]
    by blast
qed

theorem battery_non_increasing_witness:
  "0 \<le> battery_level pump_init \<and> battery_level pump_init \<le> 100 \<and>
   list_all pump_draws_ok
     [\<lparr>flow_delta = 0, pressure_delta = 0, battery_drain = 0.05\<rparr>,
      \<lparr>flow_delta = 0, pressure_delta = 0, battery_drain = 0.01\<rparr>] \<and>
   map battery_level (pump_init # pump_ticks 2 pump_init
     [\<lparr>flow_delta = 0, pressure_delta = 0, battery_drain = 0.05\<rparr>,
      \<lparr>flow_delta = 0, pressure_delta = 0, battery_drain = 0.01\<rparr>]) = [100, 99.95, 99.94] \<and>
   sorted_wrt (\<lambda>a b. b \<le> a) (map battery_level (pump_init # pump_ticks 2 pump_init
     [\<lparr>flow_delta = 0, pressure_delta = 0, battery_drain = 0.05\<rparr>,
      \<lparr>flow_delta = 0, pressure_delta = 0, battery_drain = 0.01\<rparr>]))"
proof -
  let ?ds = "[\<lparr>flow_delta = 0, pressure_delta = 0, battery_drain = 0.05\<rparr>,
      \<lparr>flow_delta = 0, pressure_delta = 0, battery_drain = 0.01\<rparr>]"
  have h: "0 \<le> battery_level pump_init" "battery_level pump_init \<le> 100"
    "list_all pump_draws_ok ?ds"
    by (simp_all add: pump_init_def pump_draws_ok_def)
  have e: "map battery_level (pump_init # pump_ticks 2 pump_init ?ds) = [100, 99.95, 99.94]"
    by (simp add: pump_init_def update_pump_state_def Let_def)
  from h e battery_non_increasing [OF h, of 2] show ?thesis by blast
qed

theorem unoccupied_bed_frame_witness:
  "\<not> occupancy (bed_init\<lparr>occupancy := False\<rparr>) \<and>
   update_bed_state \<lparr>weight_delta = 0.5, angle_delta = 5, movement_draw = 4, risk_draw = 0.1,
        occupancy_draw = 0.05, new_weight = 90\<rparr> (bed_init\<lparr>occupancy := False\<rparr>)
     = bed_init\<lparr>occupancy := False\<rparr> \<and>
   update_bed_state \<lparr>weight_delta = 0.5, angle_delta = 5, movement_draw = 4, risk_draw = 0.1,
        occupancy_draw = 0.04, new_weight = 90\<rparr> (bed_init\<lparr>occupancy := False\<rparr>)
     = bed_init\<lparr>weight := 90\<rparr>"
proof -
  let ?s = "bed_init\<lparr>occupancy := False\<rparr>"
  let ?d1 = "\<lparr>weight_delta = 0.5, angle_delta = 5, movement_draw = 4, risk_draw = 0.1,
        occupancy_draw = 0.05, new_weight = 90\<rparr>"
  let ?d2 = "\<lparr>weight_delta = 0.5, angle_delta = 5, movement_draw = 4, risk_draw = 0.1,
        occupancy_draw = 0.04, new_weight = 90\<rparr>"
  have h: "\<not> occupancy ?s" by simp
  from unoccupied_bed_frame [OF h, of ?d1 "[]"] unoccupied_bed_frame [OF h, of ?d2 "[]"]
  show ?thesis by (simp add: bed_init_def)
qed

lemma send_data_history:
  "data_history (fst (send_data data (self, st))) =
     (let h = data_history self @ [data] in if length h > 100 then tl h else h)"
  by (simp add: send_data_def Let_def)

lemma send_all_history:
  "length (data_history self) \<le> 100 \<Longrightarrow>
   data_history (fst (send_all rs (self, st))) =
     drop (length (data_history self @ rs) - 100) (data_history self @ rs)"
proof (induction rs arbitrary: self st)
  case Nil
  then show ?case by simp
next
  case (Cons r rs)
  obtain self' st' where sd: "send_data r (self, st) = (self', st')"
    by (cases "send_data r (self, st)")
  have h': "data_history self' =
      (if length (data_history self) = 100 then tl (data_history self @ [r])
       else data_history self @ [r])"
    using send_data_history [of r self st] Cons.prems sd by (auto simp: Let_def)
  have len: "length (data_history self') \<le> 100"
    using h' Cons.prems by auto
  have "data_history (fst (send_all (r # rs) (self, st))) =
        data_history (fst (send_all rs (self', st')))"
    by (simp add: sd)
  also have "\<dots> = drop (length (data_history self' @ rs) - 100) (data_history self' @ rs)"
    by (rule Cons.IH [OF len])
  also have "\<dots> = drop (length (data_history self @ r # rs) - 100) (data_history self @ r # rs)"
  proof (cases "length (data_history self) = 100")
    case True
    then have ne: "data_history self \<noteq> []" by auto
    then obtain x xs where xs: "data_history self = x # xs" by (cases "data_history self") auto
    with True have lx: "length xs = 99" by simp
    show ?thesis using h' True xs lx by (simp add: Suc_diff_le)
  next
    case False
    with Cons.prems have "length (data_history self) < 100" by simp
    then show ?thesis using h' False by simp
  qed
  finally show ?case .
qed

text \<open>
  Claim C2. For a simulator whose history is empty and any sequence of \<open>N\<close> records
  delivered through \<open>send_data\<close>, whatever its callbacks do: when \<open>N \<le> 100\<close> the history
  holds all \<open>N\<close> records in the order sent; when \<open>N > 100\<close> it holds exactly 100 records,
  the last 100 sent, in the order sent.
\<close>

theorem history_buffer_keeps_last_100:
  assumes "data_history self = []"
  shows "(length rs \<le> 100 \<longrightarrow> data_history (fst (send_all rs (self, st))) = rs) \<and>
         (length rs > 100 \<longrightarrow>
            length (data_history (fst (send_all rs (self, st)))) = 100 \<and>
            data_history (fst (send_all rs (self, st))) = drop (length rs - 100) rs)"
  using assms send_all_history [of self rs st] by auto

theorem history_buffer_keeps_last_100_witness:
  "data_history (simulator_init ''pump_001'' ''infusion_pump'' True :: unit simulator) = [] \<and>
   length (map (\<lambda>n. [(''seq'', PInt (int n))]) [0..<2]) \<le> 100 \<and>
   data_history (fst (send_all (map (\<lambda>n. [(''seq'', PInt (int n))]) [0..<2])
       (simulator_init ''pump_001'' ''infusion_pump'' True :: unit simulator, (), fresh_world)))
     = [[(''seq'', PInt 0)], [(''seq'', PInt 1)]] \<and>
   length (map (\<lambda>n. [(''seq'', PInt (int n))]) [0..<103]) > 100 \<and>
   length (data_history (fst (send_all (map (\<lambda>n. [(''seq'', PInt (int n))]) [0..<103])
       (simulator_init ''pump_001'' ''infusion_pump'' True :: unit simulator, (), fresh_world)))) = 100 \<and>
   data_history (fst (send_all (map (\<lambda>n. [(''seq'', PInt (int n))]) [0..<103])
       (simulator_init ''pump_001'' ''infusion_pump'' True :: unit simulator, (), fresh_world)))
     = map (\<lambda>n. [(''seq'', PInt (int n))]) [3..<103]"
proof -
  let ?self = "simulator_init ''pump_001'' ''infusion_pump'' True :: unit simulator"
  let ?f = "\<lambda>n. [(''seq'', PInt (int n))]"
  have h: "data_history ?self = []" by (simp add: simulator_init_def)
  have a: "map ?f [0..<2] = [[(''seq'', PInt 0)], [(''seq'', PInt 1)]]"
    by (simp add: upt_rec)
  have b: "drop (length (map ?f [0..<103]) - 100) (map ?f [0..<103]) = map ?f [3..<103]"
    by (simp add: drop_map)
  from history_buffer_keeps_last_100 [OF h, of "map ?f [0..<2]" "((), fresh_world)"]
       history_buffer_keeps_last_100 [OF h, of "map ?f [0..<103]" "((), fresh_world)"] a b h
  show ?thesis by simp
qed

section \<open>Lifecycle of a simulator\<close>

lemma stop_of_stopped:
  "\<not> running self \<Longrightarrow> (case thread self of None \<Rightarrow> True | Some t \<Rightarrow> t \<notin> set (alive w)) \<Longrightarrow>
   stop (self, w) = (self, print (Stopped (device_type self) (device_id self)) w)"
  by (cases "thread self") (simp_all add: stop_def join_def Let_def)

lemma stop_result_stopped:
  "stop (self, w) = (self', w') \<Longrightarrow>
   \<not> running self' \<and> (case thread self' of None \<Rightarrow> True | Some t \<Rightarrow> t \<notin> set (alive w'))"
  by (cases "thread self") (auto simp: stop_def join_def print_def Let_def)

text \<open>
  Claim C9, as amended. \<open>start\<close> on a running simulator is a no-op: it changes neither the
  simulator nor the world, so no second thread is started and nothing is printed, and
  \<open>start\<close> twice is \<open>start\<close> once. \<open>stop\<close> on a simulator that is not running and whose
  thread, if it has one, has ended does not raise and leaves the simulator and the threads
  of the process as they were, and so does a second \<open>stop\<close> after a first and a \<open>stop\<close> on a
  simulator never started; it is not a no-op, since each such call prints the line
  \<open>Stopped\<close> once more.
\<close>

theorem lifecycle_idempotent:
  "(running self \<longrightarrow> start (self, w) = (self, w)) \<and>
   start (start (self, w)) = start (self, w) \<and>
   (\<not> running self \<and> (case thread self of None \<Rightarrow> True | Some t \<Rightarrow> t \<notin> set (alive w)) \<longrightarrow>
      fst (stop (self, w)) = self \<and>
      snd (stop (self, w)) = print (Stopped (device_type self) (device_id self)) w) \<and>
   fst (stop (stop (self, w))) = fst (stop (self, w)) \<and>
   snd (stop (stop (self, w))) =
     print (Stopped (device_type self) (device_id self)) (snd (stop (self, w))) \<and>
   stop (simulator_init did dtype en, w) =
     (simulator_init did dtype en, print (Stopped dtype did) w)"
proof -
  have a: "running self \<longrightarrow> start (self, w) = (self, w)"
    by (simp add: start_def)
  have b: "start (start (self, w)) = start (self, w)"
    by (simp add: start_def Let_def print_def)
  have c: "\<not> running self \<and> (case thread self of None \<Rightarrow> True | Some t \<Rightarrow> t \<notin> set (alive w)) \<longrightarrow>
      fst (stop (self, w)) = self \<and>
      snd (stop (self, w)) = print (Stopped (device_type self) (device_id self)) w"
    using stop_of_stopped [of self w] by simp
  obtain self' w' where s1: "stop (self, w) = (self', w')" by (cases "stop (self, w)")
  have ids: "device_type self' = device_type self" "device_id self' = device_id self"
    using s1 by (auto simp: stop_def Let_def)
  from stop_result_stopped [OF s1] stop_of_stopped [of self' w']
  have "stop (self', w') = (self', print (Stopped (device_type self') (device_id self')) w')"
    by simp
  with s1 ids have d: "fst (stop (stop (self, w))) = fst (stop (self, w))"
    "snd (stop (stop (self, w))) =
       print (Stopped (device_type self) (device_id self)) (snd (stop (self, w)))"
    by simp_all
  have e: "stop (simulator_init did dtype en, w) =
     (simulator_init did dtype en, print (Stopped dtype did) w)"
    by (simp add: stop_def simulator_init_def Let_def)
  from a b c d e show ?thesis by blast
qed

theorem lifecycle_idempotent_witness:
  "running (fst (start (simulator_init ''bed_001'' ''patient_bed'' True :: unit simulator, fresh_world))) \<and>
   start (start (simulator_init ''bed_001'' ''patient_bed'' True :: unit simulator, fresh_world))
     = start (simulator_init ''bed_001'' ''patient_bed'' True, fresh_world) \<and>
   threads_started (snd (start (start
      (simulator_init ''bed_001'' ''patient_bed'' True :: unit simulator, fresh_world)))) = 1 \<and>
   \<not> running (simulator_init ''bed_001'' ''patient_bed'' True :: unit simulator) \<and>
   stop (simulator_init ''bed_001'' ''patient_bed'' True :: unit simulator, fresh_world)
     = (simulator_init ''bed_001'' ''patient_bed'' True,
        fresh_world\<lparr>stdout := [Stopped ''patient_bed'' ''bed_001'']\<rparr>)"
proof -
  let ?s = "simulator_init ''bed_001'' ''patient_bed'' True :: unit simulator"
  have r: "running (fst (start (?s, fresh_world)))"
    by (simp add: start_def simulator_init_def Let_def)
  have t: "threads_started (snd (start (?s, fresh_world))) = 1"
    by (simp add: start_def simulator_init_def Let_def print_def fresh_world_def)
  have n: "\<not> running ?s" "thread ?s = None" by (simp_all add: simulator_init_def)
  have ids: "device_type ?s = ''patient_bed''" "device_id ?s = ''bed_001''"
    by (simp_all add: simulator_init_def)
  note inst = lifecycle_idempotent [of ?s fresh_world "''bed_001''" "''patient_bed''" True]
  from inst have ss: "start (start (?s, fresh_world)) = start (?s, fresh_world)" by blast
  from inst have st: "stop (?s, fresh_world) = (?s, print (Stopped ''patient_bed'' ''bed_001'') fresh_world)"
    by blast
  have p: "print (Stopped ''patient_bed'' ''bed_001'') fresh_world
      = fresh_world\<lparr>stdout := [Stopped ''patient_bed'' ''bed_001'']\<rparr>"
    by (simp add: print_def fresh_world_def)
  show ?thesis unfolding ss using r t n(1) st p by simp
qed

text \<open>
  Claim C9 as first stated does not hold: \<open>stop\<close> has no guard like the one of \<open>start\<close>, so
  on a simulator never started it changes the world by the line it prints, and a second
  \<open>stop\<close> does not give what the first gave.
\<close>

theorem stop_not_a_noop_counterexample:
  "stop (simulator_init ''bed_001'' ''patient_bed'' True :: unit simulator, fresh_world)
     \<noteq> (simulator_init ''bed_001'' ''patient_bed'' True, fresh_world) \<and>
   stop (stop (simulator_init ''bed_001'' ''patient_bed'' True :: unit simulator, fresh_world))
     \<noteq> stop (simulator_init ''bed_001'' ''patient_bed'' True, fresh_world) \<and>
   stdout (snd (stop (stop
      (simulator_init ''bed_001'' ''patient_bed'' True :: unit simulator, fresh_world))))
     = [Stopped ''patient_bed'' ''bed_001'', Stopped ''patient_bed'' ''bed_001'']"
  by (simp add: stop_def simulator_init_def print_def fresh_world_def Let_def)

section \<open>The batching dispatcher\<close>

lemma send_batch_requests:
  "requests (send_batch cfg remote batch w) = requests w @
     [if length batch = 1
      then \<lparr>url = api_url cfg @ ''/devices/data'', auth = session_auth cfg,
            body = SingleRecord (batch ! 0), timeout = 5\<rparr>
      else \<lparr>url = api_url cfg @ ''/devices/data/batch'', auth = session_auth cfg,
            body = BatchRecords batch, timeout = 10\<rparr>]"
  by (simp add: send_batch_def Let_def print_def split: sum.splits)

lemma send_batch_stdout:
  "stdout (send_batch cfg remote batch w) = stdout w @
     [case remote (length (requests w)) (last (requests (send_batch cfg remote batch w))) of
        Inl e \<Rightarrow> FailedToSend e
      | Inr resp \<Rightarrow>
          if status_code resp = 200 \<or> status_code resp = 201
          then SentRecords (length batch)
          else ApiError (status_code resp) (resp_text resp)]"
  by (simp add: send_batch_requests) (simp add: send_batch_def Let_def print_def split: sum.splits)

lemma send_batch_frame:
  "files (send_batch cfg remote batch w) = files w"
  "threads_started (send_batch cfg remote batch w) = threads_started w"
  "alive (send_batch cfg remote batch w) = alive w"
  by (simp_all add: send_batch_def Let_def print_def split: sum.splits)

lemma process_batches_append:
  "process_batches cfg remote (xs @ ys) batch w =
     (case process_batches cfg remote xs batch w of
        (batch', w') \<Rightarrow> process_batches cfg remote ys batch' w')"
  by (induction cfg remote xs batch w rule: process_batches.induct) (simp_all add: Let_def)

lemma process_batches_idle:
  "process_batches cfg remote (replicate n Empty) [] w = ([], w)"
  by (induction n) simp_all

text \<open>
  Claim C4. \<open>_send_batch\<close> posts exactly one request per batch: a batch of one record is
  posted as that record to \<open>/devices/data\<close> with timeout 5, a batch of two or more as the
  list under \<open>data\<close> to \<open>/devices/data/batch\<close> with timeout 10. A status other than 200 or
  201 and an exception of the transport are each reported by one printed line and by
  nothing else; the dispatcher's batch is empty after the send whatever the answer was,
  and no request is posted again.
\<close>

theorem send_batch_endpoint_choice:
  "(batch = [r] \<longrightarrow>
      requests (send_batch cfg remote batch w) = requests w @
        [\<lparr>url = api_url cfg @ ''/devices/data'', auth = session_auth cfg,
          body = SingleRecord r, timeout = 5\<rparr>]) \<and>
   (length batch \<ge> 2 \<longrightarrow>
      requests (send_batch cfg remote batch w) = requests w @
        [\<lparr>url = api_url cfg @ ''/devices/data/batch'', auth = session_auth cfg,
          body = BatchRecords batch, timeout = 10\<rparr>]) \<and>
   length (requests (send_batch cfg remote batch w)) = Suc (length (requests w)) \<and>
   stdout (send_batch cfg remote batch w) = stdout w @
     [case remote (length (requests w)) (last (requests (send_batch cfg remote batch w))) of
        Inl e \<Rightarrow> FailedToSend e
      | Inr resp \<Rightarrow>
          if status_code resp = 200 \<or> status_code resp = 201
          then SentRecords (length batch)
          else ApiError (status_code resp) (resp_text resp)] \<and>
   (batch \<noteq> [] \<longrightarrow>
      process_batches cfg remote [Empty] batch w = ([], send_batch cfg remote batch w)) \<and>
   (int (length (batch @ [r])) \<ge> batch_size cfg \<longrightarrow>
      process_batches cfg remote [Got r] batch w = ([], send_batch cfg remote (batch @ [r]) w))"
proof -
  have a: "batch = [r] \<longrightarrow>
      requests (send_batch cfg remote batch w) = requests w @
        [\<lparr>url = api_url cfg @ ''/devices/data'', auth = session_auth cfg,
          body = SingleRecord r, timeout = 5\<rparr>]"
    by (simp add: send_batch_requests)
  have b: "length batch \<ge> 2 \<longrightarrow>
      requests (send_batch cfg remote batch w) = requests w @
        [\<lparr>url = api_url cfg @ ''/devices/data/batch'', auth = session_auth cfg,
          body = BatchRecords batch, timeout = 10\<rparr>]"
    by (simp add: send_batch_requests)
  have c: "length (requests (send_batch cfg remote batch w)) = Suc (length (requests w))"
    by (simp add: send_batch_requests)
  have e: "batch \<noteq> [] \<longrightarrow>
      process_batches cfg remote [Empty] batch w = ([], send_batch cfg remote batch w)"
    by simp
  have f: "int (length (batch @ [r])) \<ge> batch_size cfg \<longrightarrow>
      process_batches cfg remote [Got r] batch w = ([], send_batch cfg remote (batch @ [r]) w)"
    by (simp add: Let_def)
  from a b c send_batch_stdout [of cfg remote batch w] e f show ?thesis by blast
qed

text \<open>
  Claim C3. With \<open>batch_size = 3\<close>, when the worker's calls of \<open>get\<close> return seven records
  one after the other and then time out (once or more): nothing is posted before the third
  record, the first three are posted as one batch as soon as the third arrives, the next
  three likewise, the seventh is held until the first timeout and then posted alone.
  Exactly three requests are posted, further timeouts post nothing, and the records
  carried by the three requests, in order, are the seven records in the order dequeued.
\<close>

theorem batching_three_sends:
  assumes "batch_size cfg = 3"
  shows
    "requests (snd (process_batches cfg remote (map Got [r1, r2]) [] w)) = requests w \<and>
     process_batches cfg remote (map Got [r1, r2, r3]) [] w
       = ([], send_batch cfg remote [r1, r2, r3] w) \<and>
     fst (process_batches cfg remote (map Got [r1, r2, r3, r4, r5, r6, r7]) [] w) = [r7] \<and>
     requests (snd (process_batches cfg remote (map Got [r1, r2, r3, r4, r5, r6, r7]) [] w))
       = requests w @
         [\<lparr>url = api_url cfg @ ''/devices/data/batch'', auth = session_auth cfg,
           body = BatchRecords [r1, r2, r3], timeout = 10\<rparr>,
          \<lparr>url = api_url cfg @ ''/devices/data/batch'', auth = session_auth cfg,
           body = BatchRecords [r4, r5, r6], timeout = 10\<rparr>] \<and>
     fst (process_batches cfg remote
            (map Got [r1, r2, r3, r4, r5, r6, r7] @ replicate (Suc n) Empty) [] w) = [] \<and>
     requests (snd (process_batches cfg remote
            (map Got [r1, r2, r3, r4, r5, r6, r7] @ replicate (Suc n) Empty) [] w))
       = requests w @
         [\<lparr>url = api_url cfg @ ''/devices/data/batch'', auth = session_auth cfg,
           body = BatchRecords [r1, r2, r3], timeout = 10\<rparr>,
          \<lparr>url = api_url cfg @ ''/devices/data/batch'', auth = session_auth cfg,
           body = BatchRecords [r4, r5, r6], timeout = 10\<rparr>,
          \<lparr>url = api_url cfg @ ''/devices/data'', auth = session_auth cfg,
           body = SingleRecord r7, timeout = 5\<rparr>] \<and>
     concat (map (payload_records \<circ> body) (drop (length (requests w))
        (requests (snd (process_batches cfg remote
            (map Got [r1, r2, r3, r4, r5, r6, r7] @ replicate (Suc n) Empty) [] w)))))
       = [r1, r2, r3, r4, r5, r6, r7]"
proof -
  let ?w2 = "send_batch cfg remote [r4, r5, r6] (send_batch cfg remote [r1, r2, r3] w)"
  have two: "requests (snd (process_batches cfg remote (map Got [r1, r2]) [] w)) = requests w"
    using assms by (simp add: Let_def)
  have three: "process_batches cfg remote (map Got [r1, r2, r3]) [] w
       = ([], send_batch cfg remote [r1, r2, r3] w)"
    using assms by (simp add: Let_def)
  have seven: "process_batches cfg remote (map Got [r1, r2, r3, r4, r5, r6, r7]) [] w
       = ([r7], ?w2)"
    using assms by (simp add: Let_def)
  have all: "process_batches cfg remote
            (map Got [r1, r2, r3, r4, r5, r6, r7] @ replicate (Suc n) Empty) [] w
       = ([], send_batch cfg remote [r7] ?w2)"
    by (simp only: process_batches_append seven)
       (simp add: process_batches_idle)
  show ?thesis
    unfolding all seven three using two
    by (simp add: send_batch_requests)
qed

theorem send_batch_endpoint_choice_witness:
  "send_batch sample_api failing_remote [sample_data] fresh_world =
     fresh_world\<lparr>requests :=
        [\<lparr>url = ''http://localhost:8080/api/devices/data'', auth = None,
          body = SingleRecord sample_data, timeout = 5\<rparr>],
       stdout := [ApiError 500 ''unavailable'']\<rparr> \<and>
   length [sample_data, sample_data_no_flow_rate] \<ge> 2 \<and>
   requests (send_batch sample_api failing_remote [sample_data, sample_data_no_flow_rate]
      (send_batch sample_api failing_remote [sample_data] fresh_world)) =
     [\<lparr>url = ''http://localhost:8080/api/devices/data'', auth = None,
       body = SingleRecord sample_data, timeout = 5\<rparr>,
      \<lparr>url = ''http://localhost:8080/api/devices/data/batch'', auth = None,
       body = BatchRecords [sample_data, sample_data_no_flow_rate], timeout = 10\<rparr>] \<and>
   stdout (send_batch sample_api failing_remote [sample_data, sample_data_no_flow_rate]
      (send_batch sample_api failing_remote [sample_data] fresh_world)) =
     [ApiError 500 ''unavailable'', FailedToSend (RequestException ''timed out'')] \<and>
   process_batches sample_api failing_remote [Empty] [sample_data] fresh_world =
     ([], send_batch sample_api failing_remote [sample_data] fresh_world)"
proof -
  let ?w1 = "send_batch sample_api failing_remote [sample_data] fresh_world"
  let ?two = "[sample_data, sample_data_no_flow_rate]"
  note one = send_batch_endpoint_choice
     [of "[sample_data]" sample_data sample_api failing_remote fresh_world]
  note two = send_batch_endpoint_choice
     [of ?two sample_data sample_api failing_remote ?w1]
  have w1: "?w1 = fresh_world\<lparr>requests :=
        [\<lparr>url = ''http://localhost:8080/api/devices/data'', auth = None,
          body = SingleRecord sample_data, timeout = 5\<rparr>],
       stdout := [ApiError 500 ''unavailable'']\<rparr>"
    by (simp add: send_batch_def sample_api_def session_auth_def failing_remote_def fresh_world_def print_def Let_def)
  have r1: "requests ?w1 = [\<lparr>url = ''http://localhost:8080/api/devices/data'', auth = None,
          body = SingleRecord sample_data, timeout = 5\<rparr>]"
    using one by (simp add: sample_api_def session_auth_def fresh_world_def)
  have s1: "stdout ?w1 = [ApiError 500 ''unavailable'']"
    by (simp add: w1)
  from two have r2: "requests (send_batch sample_api failing_remote ?two ?w1) = requests ?w1 @
        [\<lparr>url = api_url sample_api @ ''/devices/data/batch'', auth = session_auth sample_api,
          body = BatchRecords ?two, timeout = 10\<rparr>]"
    by simp
  from two have s2: "stdout (send_batch sample_api failing_remote ?two ?w1) = stdout ?w1 @
     [case failing_remote (length (requests ?w1))
             (last (requests (send_batch sample_api failing_remote ?two ?w1))) of
        Inl e \<Rightarrow> FailedToSend e
      | Inr resp \<Rightarrow>
          if status_code resp = 200 \<or> status_code resp = 201
          then SentRecords (length ?two)
          else ApiError (status_code resp) (resp_text resp)]"
    by blast
  have s2': "stdout (send_batch sample_api failing_remote ?two ?w1) =
     [ApiError 500 ''unavailable'', FailedToSend (RequestException ''timed out'')]"
    unfolding s2 s1 r1 by (simp add: failing_remote_def)
  from one have p: "process_batches sample_api failing_remote [Empty] [sample_data] fresh_world =
     ([], ?w1)" by simp
  show ?thesis
    using w1 r2 s2' p unfolding r1 by (simp add: sample_api_def session_auth_def)
qed

theorem batching_three_sends_witness:
  "batch_size sample_api = 3 \<and>
   requests (snd (process_batches sample_api failing_remote
      (map Got [[(''seq'', PInt 1)], [(''seq'', PInt 2)], [(''seq'', PInt 3)],
                [(''seq'', PInt 4)], [(''seq'', PInt 5)], [(''seq'', PInt 6)],
                [(''seq'', PInt 7)]] @ replicate (Suc 2) Empty) [] fresh_world)) =
     [\<lparr>url = ''http://localhost:8080/api/devices/data/batch'', auth = None,
       body = BatchRecords [[(''seq'', PInt 1)], [(''seq'', PInt 2)], [(''seq'', PInt 3)]],
       timeout = 10\<rparr>,
      \<lparr>url = ''http://localhost:8080/api/devices/data/batch'', auth = None,
       body = BatchRecords [[(''seq'', PInt 4)], [(''seq'', PInt 5)], [(''seq'', PInt 6)]],
       timeout = 10\<rparr>,
      \<lparr>url = ''http://localhost:8080/api/devices/data'', auth = None,
       body = SingleRecord [(''seq'', PInt 7)], timeout = 5\<rparr>]"
proof -
  have h: "batch_size sample_api = 3" by (simp add: sample_api_def session_auth_def)
  from batching_three_sends [OF h, of failing_remote
      "[(''seq'', PInt 1)]" "[(''seq'', PInt 2)]" fresh_world "[(''seq'', PInt 3)]"
      "[(''seq'', PInt 4)]" "[(''seq'', PInt 5)]" "[(''seq'', PInt 6)]" "[(''seq'', PInt 7)]" 2]
  show ?thesis using h by (simp add: sample_api_def session_auth_def fresh_world_def)
qed

section \<open>The sink registry and the sinks\<close>

lemma sink_write_keeps_identity:
  "sink_name (fst (sink_write s data w)) = sink_name s"
  "sink_enabled (fst (sink_write s data w)) = sink_enabled s"
  by (cases s; simp split: prod.splits)+

lemma sink_write_sink_independent:
  "fst (sink_write s data w) = fst (sink_write s data w')"
  by (cases s) (simp_all split: prod.splits)

lemma write_to_all_calls:
  "snd (snd (write_to_all sinks data w)) =
     map (\<lambda>s. (sink_name s, data)) (filter sink_enabled sinks)"
proof (induction sinks arbitrary: w)
  case Nil
  then show ?case by simp
next
  case (Cons s sinks)
  show ?case
  proof (cases "sink_enabled s")
    case True
    obtain s' w' r where sw: "sink_write s data w = (s', w', r)"
      by (cases "sink_write s data w") auto
    let ?w1 = "case r of None \<Rightarrow> w' | Some e \<Rightarrow> print (ErrorWriting (sink_name s) e) w'"
    have "snd (snd (write_to_all (s # sinks) data w)) =
          (sink_name s, data) # snd (snd (write_to_all sinks data ?w1))"
      using True sw by (simp add: Let_def split: prod.splits)
    then show ?thesis using True by (simp add: Cons.IH)
  next
    case False
    obtain rest' w'' calls where r: "write_to_all sinks data w = (rest', w'', calls)"
      by (cases "write_to_all sinks data w") auto
    with Cons.IH [of w] have "calls = map (\<lambda>s. (sink_name s, data)) (filter sink_enabled sinks)"
      by simp
    with False r show ?thesis by simp
  qed
qed

lemma write_to_all_sinks:
  "fst (write_to_all sinks data w) =
     map (\<lambda>s. if sink_enabled s then fst (sink_write s data w) else s) sinks"
proof (induction sinks arbitrary: w)
  case Nil
  then show ?case by simp
next
  case (Cons s sinks)
  have indep: "\<And>w1. map (\<lambda>s. if sink_enabled s then fst (sink_write s data w1) else s) sinks
      = map (\<lambda>s. if sink_enabled s then fst (sink_write s data w) else s) sinks"
    using sink_write_sink_independent by (intro map_cong) auto
  show ?case
  proof (cases "sink_enabled s")
    case True
    obtain s' w' r where sw: "sink_write s data w = (s', w', r)"
      by (cases "sink_write s data w") auto
    let ?w1 = "case r of None \<Rightarrow> w' | Some e \<Rightarrow> print (ErrorWriting (sink_name s) e) w'"
    have "fst (write_to_all (s # sinks) data w) = s' # fst (write_to_all sinks data ?w1)"
      using True sw by (simp add: Let_def split: prod.splits)
    also have "\<dots> = s' # map (\<lambda>s. if sink_enabled s then fst (sink_write s data ?w1) else s) sinks"
      by (simp only: Cons.IH)
    also have "\<dots> = s' # map (\<lambda>s. if sink_enabled s then fst (sink_write s data w) else s) sinks"
      using indep [of ?w1] by simp
    finally show ?thesis using True sw by simp
  next
    case False
    obtain rest' w'' calls where r: "write_to_all sinks data w = (rest', w'', calls)"
      by (cases "write_to_all sinks data w") auto
    with Cons.IH [of w]
    have "rest' = map (\<lambda>s. if sink_enabled s then fst (sink_write s data w) else s) sinks"
      by simp
    with False r show ?thesis by simp
  qed
qed

lemma write_to_all_keeps_registration:
  "map (\<lambda>s. (sink_name s, sink_enabled s)) (fst (write_to_all sinks data w)) =
   map (\<lambda>s. (sink_name s, sink_enabled s)) sinks"
  by (simp add: write_to_all_sinks sink_write_keeps_identity)

lemma calls_by_registration:
  "map (\<lambda>s. (sink_name s, data)) (filter sink_enabled sinks) =
   map (\<lambda>p. (fst p, data)) (filter snd (map (\<lambda>s. (sink_name s, sink_enabled s)) sinks))"
  by (induction sinks) simp_all

lemma write_all_records_calls:
  "snd (snd (write_all_records rs sinks w)) =
     concat (map (\<lambda>d. map (\<lambda>s. (sink_name s, d)) (filter sink_enabled sinks)) rs)"
proof (induction rs arbitrary: sinks w)
  case Nil
  then show ?case by simp
next
  case (Cons d rs)
  obtain sinks' w' calls where wa: "write_to_all sinks d w = (sinks', w', calls)"
    by (cases "write_to_all sinks d w") auto
  have c: "calls = map (\<lambda>s. (sink_name s, d)) (filter sink_enabled sinks)"
    using write_to_all_calls [of sinks d w] wa by simp
  have reg: "map (\<lambda>s. (sink_name s, sink_enabled s)) sinks' =
             map (\<lambda>s. (sink_name s, sink_enabled s)) sinks"
    using write_to_all_keeps_registration [of sinks d w] wa by simp
  have same: "\<And>d'. map (\<lambda>s. (sink_name s, d')) (filter sink_enabled sinks') =
                   map (\<lambda>s. (sink_name s, d')) (filter sink_enabled sinks)"
    by (simp only: calls_by_registration reg)
  have "snd (snd (write_all_records (d # rs) sinks w)) =
        calls @ snd (snd (write_all_records rs sinks' w'))"
    using wa by (simp split: prod.splits)
  also have "\<dots> = calls @
        concat (map (\<lambda>d. map (\<lambda>s. (sink_name s, d)) (filter sink_enabled sinks')) rs)"
    by (simp only: Cons.IH)
  also have "\<dots> = calls @
        concat (map (\<lambda>d. map (\<lambda>s. (sink_name s, d)) (filter sink_enabled sinks)) rs)"
    by (simp only: same)
  finally show ?case by (simp add: c)
qed

lemma write_to_all_logs_exception:
  "sink_enabled s \<Longrightarrow> sink_write s data w = (s', w', Some e) \<Longrightarrow>
   write_to_all (s # rest) data w =
     (case write_to_all rest data (print (ErrorWriting (sink_name s) e) w') of
        (rest', w'', calls) \<Rightarrow> (s' # rest', w'', (sink_name s, data) # calls))"
  by (simp add: Let_def)

text \<open>
  Claim C5. \<open>write_to_all\<close> calls \<open>write\<close> once on each enabled sink, in registration
  order, and on no disabled sink, whether or not earlier calls raised; each enabled sink
  ends in the state one \<open>write\<close> of the record leaves it in, each disabled sink as it was.
  Over a sequence of records every enabled sink is called with every record, in the order
  of the records. An exception raised by a sink's \<open>write\<close> is printed with the sink's
  name, and the loop goes on with the sinks registered after it.
\<close>

theorem write_to_all_isolates_failures:
  "snd (snd (write_to_all sinks data w)) =
     map (\<lambda>s. (sink_name s, data)) (filter sink_enabled sinks) \<and>
   fst (write_to_all sinks data w) =
     map (\<lambda>s. if sink_enabled s then fst (sink_write s data w) else s) sinks \<and>
   snd (snd (write_all_records rs sinks w)) =
     concat (map (\<lambda>d. map (\<lambda>s. (sink_name s, d)) (filter sink_enabled sinks)) rs) \<and>
   (sink_enabled s \<and> sink_write s data w = (s', w', Some e) \<longrightarrow>
      write_to_all (s # rest) data w =
        (case write_to_all rest data (print (ErrorWriting (sink_name s) e) w') of
           (rest', w'', calls) \<Rightarrow> (s' # rest', w'', (sink_name s, data) # calls)))"
  using write_to_all_calls [of sinks data w] write_to_all_sinks [of sinks data w]
    write_all_records_calls [of rs sinks w] write_to_all_logs_exception [of s data w s' w' e rest]
  by blast

text \<open>
  Claim C6. On the sample infusion pump record without \<open>flow_rate\<close>, the console sink in
  detailed format prints the placeholder \<open>N/A\<close> for the flow, while \<open>DatabaseDataSink.write\<close>
  raises \<open>KeyError\<close> after its first insert and before its commit; the row left pending is
  committed by the next successful write.
\<close>

theorem database_write_missing_field_raises:
  "database_write True \<lparr>pending = [], committed = []\<rparr> sample_data_no_flow_rate =
     (\<lparr>pending = [(''device_data'',
          [Plain (PStr ''pump_001''), Plain (PStr ''infusion_pump''), Plain (PStr ''Room_101''),
           Plain (PStr ''2024-01-01T00:00:00''), Plain (PStr ''abc123''),
           Dumped (PDict sample_data_no_flow_rate)])],
       committed = []\<rparr>,
      Some (KeyError ''flow_rate'')) \<and>
   console_write True ''detailed'' sample_data_no_flow_rate fresh_world =
     (fresh_world\<lparr>stdout :=
        [DetailedLine (PStr ''2024-01-01T00:00:00'') (PStr ''infusion_pump'')
           (PStr ''pump_001'') (PStr ''Room_101''),
         PumpLine (PStr ''N/A'') (PFloat 25.8)]\<rparr>, None) \<and>
   map fst (committed (fst (database_write True
       (fst (database_write True \<lparr>pending = [], committed = []\<rparr> sample_data_no_flow_rate))
       sample_data)))
     = [''device_data'', ''device_data'', ''infusion_pump_data'']"
  by (simp add: database_write_def console_write_def sample_data_no_flow_rate_def getitem_def
      sample_data_def dict_get_def execute_insert_def commit_def print_def fresh_world_def Let_def)

text \<open>
  Claim C10. For the console, file, database and API sinks, \<open>write\<close> on a sink whose
  \<open>enabled\<close> flag is false returns without raising and changes nothing: nothing is printed,
  no file is written, no row is inserted or committed, nothing is queued.
\<close>

theorem disabled_sink_write_no_effect:
  "console_write False fmt data w = (w, None) \<and>
   file_write False dir ffmt data w = (w, None) \<and>
   database_write False conn data = (conn, None) \<and>
   api_write False q data = q \<and>
   sink_write (ConsoleDataSink False fmt) data w = (ConsoleDataSink False fmt, w, None) \<and>
   sink_write (FileDataSink False dir ffmt) data w = (FileDataSink False dir ffmt, w, None) \<and>
   sink_write (DatabaseDataSink False conn) data w = (DatabaseDataSink False conn, w, None) \<and>
   sink_write (APIDataSink False cfg q) data w = (APIDataSink False cfg q, w, None)"
  by (simp add: console_write_def file_write_def database_write_def api_write_def)

theorem write_to_all_isolates_failures_witness:
  "write_all_records [sample_data, sample_data_no_flow_rate]
     [DataSink ''A'' True, ConsoleDataSink False ''simple'',
      FileDataSink True ''out'' ''json'', APIDataSink True sample_api []] fresh_world =
   ([DataSink ''A'' True, ConsoleDataSink False ''simple'',
     FileDataSink True ''out'' ''json'',
     APIDataSink True sample_api [sample_data, sample_data_no_flow_rate]],
    fresh_world\<lparr>stdout := [ErrorWriting ''A'' NotImplementedError,
                            ErrorWriting ''A'' NotImplementedError],
       files := [((''out'', PStr ''infusion_pump'', ''_data.jsonl''),
                  [JsonlRecord sample_data, JsonlRecord sample_data_no_flow_rate])]\<rparr>,
    [(''A'', sample_data), (''file'', sample_data), (''api'', sample_data),
     (''A'', sample_data_no_flow_rate), (''file'', sample_data_no_flow_rate),
     (''api'', sample_data_no_flow_rate)]) \<and>
   sink_enabled (DataSink ''A'' True) \<and>
   sink_write (DataSink ''A'' True) sample_data fresh_world =
     (DataSink ''A'' True, fresh_world, Some NotImplementedError) \<and>
   write_to_all [DataSink ''A'' True] sample_data fresh_world =
     ([DataSink ''A'' True], fresh_world\<lparr>stdout := [ErrorWriting ''A'' NotImplementedError]\<rparr>,
      [(''A'', sample_data)])"
proof -
  let ?sinks = "[DataSink ''A'' True, ConsoleDataSink False ''simple'',
      FileDataSink True ''out'' ''json'', APIDataSink True sample_api []]"
  let ?rs = "[sample_data, sample_data_no_flow_rate]"
  note inst = write_to_all_isolates_failures [of ?sinks sample_data fresh_world ?rs
      "DataSink ''A'' True" "DataSink ''A'' True" fresh_world NotImplementedError "[]"]
  have en: "sink_enabled (DataSink ''A'' True)"
    "sink_write (DataSink ''A'' True) sample_data fresh_world =
       (DataSink ''A'' True, fresh_world, Some NotImplementedError)"
    by simp_all
  with inst have single: "write_to_all [DataSink ''A'' True] sample_data fresh_world =
     ([DataSink ''A'' True], fresh_world\<lparr>stdout := [ErrorWriting ''A'' NotImplementedError]\<rparr>,
      [(''A'', sample_data)])"
    by (simp add: print_def fresh_world_def)
  from inst have calls: "snd (snd (write_all_records ?rs ?sinks fresh_world)) =
    [(''A'', sample_data), (''file'', sample_data), (''api'', sample_data),
     (''A'', sample_data_no_flow_rate), (''file'', sample_data_no_flow_rate),
     (''api'', sample_data_no_flow_rate)]"
    by simp
  have dt: "getitem sample_data ''device_type'' = Inr (PStr ''infusion_pump'')"
    "getitem sample_data_no_flow_rate ''device_type'' = Inr (PStr ''infusion_pump'')"
    by (simp_all add: getitem_def sample_data_def sample_data_no_flow_rate_def)
  have rest: "fst (write_all_records ?rs ?sinks fresh_world) =
      [DataSink ''A'' True, ConsoleDataSink False ''simple'',
       FileDataSink True ''out'' ''json'',
       APIDataSink True sample_api [sample_data, sample_data_no_flow_rate]]"
    "fst (snd (write_all_records ?rs ?sinks fresh_world)) =
      fresh_world\<lparr>stdout := [ErrorWriting ''A'' NotImplementedError,
                            ErrorWriting ''A'' NotImplementedError],
       files := [((''out'', PStr ''infusion_pump'', ''_data.jsonl''),
                  [JsonlRecord sample_data, JsonlRecord sample_data_no_flow_rate])]\<rparr>"
    by (simp_all add: dt file_write_def write_json_def append_file_def api_write_def print_def
        fresh_world_def console_write_def Let_def)
  from calls rest have "write_all_records ?rs ?sinks fresh_world =
   ([DataSink ''A'' True, ConsoleDataSink False ''simple'',
     FileDataSink True ''out'' ''json'',
     APIDataSink True sample_api [sample_data, sample_data_no_flow_rate]],
    fresh_world\<lparr>stdout := [ErrorWriting ''A'' NotImplementedError,
                            ErrorWriting ''A'' NotImplementedError],
       files := [((''out'', PStr ''infusion_pump'', ''_data.jsonl''),
                  [JsonlRecord sample_data, JsonlRecord sample_data_no_flow_rate])]\<rparr>,
    [(''A'', sample_data), (''file'', sample_data), (''api'', sample_data),
     (''A'', sample_data_no_flow_rate), (''file'', sample_data_no_flow_rate),
     (''api'', sample_data_no_flow_rate)])"
    by (simp add: prod_eq_iff)
  with en single show ?thesis by blast
qed

theorem disabled_sink_write_no_effect_witness:
  "console_write False ''detailed'' sample_data fresh_world = (fresh_world, None) \<and>
   file_write False ''simulation_data'' ''json'' sample_data fresh_world = (fresh_world, None) \<and>
   database_write False \<lparr>pending = [], committed = []\<rparr> sample_data
     = (\<lparr>pending = [], committed = []\<rparr>, None) \<and>
   api_write False [] sample_data = [] \<and>
   api_write True [] sample_data = [sample_data]"
  using disabled_sink_write_no_effect [of "''detailed''" sample_data fresh_world
      "''simulation_data''" "''json''" "\<lparr>pending = [], committed = []\<rparr>" "[]" sample_api]
  by (simp add: api_write_def)

end
